theory Spec2Isabelle
  imports Complex_Main
begin

section \<open>Numbers and failures\<close>

text \<open>
  The statistics library of \<^verbatim>\<open>homework2/stats_functions.py\<close> computes on Python
  numbers. Here sample values, means and standard deviations are exact reals, sample
  sizes and degrees of freedom are integers. The rounding of IEEE doubles, their
  overflow and underflow, infinities and NaN are not part of this model. The main
  theorems are therefore about what does not depend on rounding: which calls fail on
  the empty sequence, and that the two call forms of \<^verbatim>\<open>t_test\<close> run the same
  computation. The inputs of their witnesses are small integers, on which the
  arithmetic of doubles is exact.

  A Python exception is a value: \<open>Inl e\<close>. The library raises nothing itself; in this
  model a call fails by a division by zero, by \<^verbatim>\<open>math.sqrt\<close> of a negative number or
  by arithmetic on a \<^verbatim>\<open>None\<close> argument.
\<close>

datatype error = ZeroDivisionError | ValueError | TypeError

definition and_then :: "error + 'a \<Rightarrow> ('a \<Rightarrow> error + 'b) \<Rightarrow> error + 'b" where
  "and_then m f = (case m of Inl e \<Rightarrow> Inl e | Inr v \<Rightarrow> f v)"

definition true_div :: "real \<Rightarrow> real \<Rightarrow> error + real" where
  \<comment> \<open>Python's \<^verbatim>\<open>a / b\<close>\<close>
  "true_div a b = (if b = 0 then Inl ZeroDivisionError else Inr (a / b))"

definition math_sqrt :: "real \<Rightarrow> error + real" where
  \<comment> \<open>\<^verbatim>\<open>math.sqrt\<close>: "math domain error" below zero\<close>
  "math_sqrt x = (if x < 0 then Inl ValueError else Inr (sqrt x))"

section \<open>Mean functions\<close>

text \<open>\<^verbatim>\<open>total = 0; for x in data: total += x; return total / len(data)\<close>\<close>

definition arithmetic_mean :: "real list \<Rightarrow> error + real" where
  "arithmetic_mean data =
     (let total = foldl (\<lambda>total x. total + x) 0 data
      in true_div total (real (length data)))"

text \<open>
  The loop of \<^verbatim>\<open>harmonic_mean\<close> carries \<^verbatim>\<open>reciprocal_sum\<close> and \<^verbatim>\<open>count\<close> (here \<open>cnt\<close>); only an
  \<open>x > 0\<close> contributes. \<^verbatim>\<open>if count == 0: return 0\<close>, else \<^verbatim>\<open>count / reciprocal_sum\<close>.
\<close>

definition harmonic_step :: "real \<times> nat \<Rightarrow> real \<Rightarrow> real \<times> nat" where
  "harmonic_step acc x =
     (case acc of (reciprocal_sum, cnt) \<Rightarrow>
        if x > 0 then (reciprocal_sum + 1 / x, cnt + 1) else (reciprocal_sum, cnt))"

definition harmonic_mean :: "real list \<Rightarrow> error + real" where
  "harmonic_mean data =
     (case foldl harmonic_step (0, 0) data of (reciprocal_sum, cnt) \<Rightarrow>
        if cnt = 0 then Inr 0 else true_div (real cnt) reciprocal_sum)"

section \<open>Standard deviation\<close>

definition standard_deviation :: "real list \<Rightarrow> error + real" where
  "standard_deviation data =
     and_then (arithmetic_mean data) (\<lambda>mean.
       let squared_diff_sum = foldl (\<lambda>acc x. acc + (x - mean)\<^sup>2) 0 data
       in and_then (true_div squared_diff_sum (real (length data))) (\<lambda>variance.
            math_sqrt variance))"

section \<open>Independent t-test\<close>

text \<open>
  Every parameter of \<^verbatim>\<open>t_test\<close> defaults to \<^verbatim>\<open>None\<close>, so each is an option here;
  arithmetic on \<^verbatim>\<open>None\<close> raises \<^verbatim>\<open>TypeError\<close>. The Student-t distribution function
  \<^verbatim>\<open>stats.t.cdf\<close> belongs to SciPy and is a parameter \<open>cdf_t\<close> of the model.
\<close>

definition need :: "'a option \<Rightarrow> error + 'a" where
  "need v = (case v of None \<Rightarrow> Inl TypeError | Some x \<Rightarrow> Inr x)"

text \<open>Lines 101 to 112: the statistic from the six summary values, in the order Python evaluates.\<close>

definition t_test_body ::
  "(real \<Rightarrow> int \<Rightarrow> real) \<Rightarrow> real option \<Rightarrow> real option \<Rightarrow> real option \<Rightarrow> real option \<Rightarrow>
   int option \<Rightarrow> int option \<Rightarrow> error + real \<times> real" where
  "t_test_body cdf_t mu1 mu2 sigma1 sigma2 n1 n2 =
     and_then (need n1) (\<lambda>n1v. and_then (need n2) (\<lambda>n2v.
     let df = n1v + n2v - 2 in
     and_then (need sigma1) (\<lambda>s1. and_then (need sigma2) (\<lambda>s2.
     and_then (true_div (real_of_int (n1v - 1) * s1\<^sup>2 + real_of_int (n2v - 1) * s2\<^sup>2)
                        (real_of_int df)) (\<lambda>pooled.
     and_then (math_sqrt pooled) (\<lambda>sp.
     and_then (need mu1) (\<lambda>m1. and_then (need mu2) (\<lambda>m2.
     and_then (true_div 1 (real_of_int n1v)) (\<lambda>r1.
     and_then (true_div 1 (real_of_int n2v)) (\<lambda>r2.
     and_then (math_sqrt (r1 + r2)) (\<lambda>root.
     and_then (true_div (m1 - m2) (sp * root)) (\<lambda>t_value.
     let p_value = 2 * (1 - cdf_t \<bar>t_value\<bar> df)
     in Inr (t_value, p_value)))))))))))))"

definition t_test ::
  "(real \<Rightarrow> int \<Rightarrow> real) \<Rightarrow> real list option \<Rightarrow> real list option \<Rightarrow>
   real option \<Rightarrow> real option \<Rightarrow> real option \<Rightarrow> real option \<Rightarrow>
   int option \<Rightarrow> int option \<Rightarrow> string \<Rightarrow> error + real \<times> real" where
  "t_test cdf_t data1 data2 mu1 mu2 sigma1 sigma2 n1 n2 mean_type =
     (case (data1, data2) of
        (Some d1, Some d2) \<Rightarrow>
          and_then (if mean_type = ''harmonic'' then harmonic_mean d1 else arithmetic_mean d1) (\<lambda>m1.
          and_then (if mean_type = ''harmonic'' then harmonic_mean d2 else arithmetic_mean d2) (\<lambda>m2.
          and_then (standard_deviation d1) (\<lambda>s1.
          and_then (standard_deviation d2) (\<lambda>s2.
            t_test_body cdf_t (Some m1) (Some m2) (Some s1) (Some s2)
              (Some (int (length d1))) (Some (int (length d2)))))))
      | _ \<Rightarrow> t_test_body cdf_t mu1 mu2 sigma1 sigma2 n1 n2)"

section \<open>Properties of the descriptive statistics\<close>




lemma arithmetic_mean_empty: "arithmetic_mean [] = Inl ZeroDivisionError"
  by (simp add: arithmetic_mean_def true_div_def)







section \<open>The empty sequence\<close>

text \<open>
  C3, as the code has it. On the empty sequence \<open>arithmetic_mean\<close> and
  \<open>standard_deviation\<close> fail with a division by zero; \<open>harmonic_mean\<close> does not fail:
  its count of positive elements is zero and it returns 0.
\<close>

theorem empty_input_results:
  "arithmetic_mean [] = Inl ZeroDivisionError \<and>
   standard_deviation [] = Inl ZeroDivisionError \<and>
   harmonic_mean [] = Inr 0"
  by (simp add: arithmetic_mean_empty standard_deviation_def and_then_def harmonic_mean_def)

text \<open>C3 as stated fails for \<open>harmonic_mean\<close>: the empty sequence gives the value 0.\<close>

theorem harmonic_mean_empty_counterexample: "harmonic_mean [] = Inr 0"
  by (simp add: harmonic_mean_def)

section \<open>The two call forms of the t-test\<close>

text \<open>
  C10. When both \<open>data1\<close> and \<open>data2\<close> are supplied, the summary arguments \<open>mu1\<close>,
  \<open>mu2\<close>, \<open>sigma1\<close>, \<open>sigma2\<close>, \<open>n1\<close>, \<open>n2\<close> are ignored. The call computes the mean of
  each sequence (harmonic when \<open>mean_type\<close> is \<open>''harmonic''\<close>, arithmetic otherwise), then
  the standard deviation of each, takes the two lengths as sizes, and returns what the
  summary form returns on these six values; a failure of one of the four statistics is
  the failure of the call. So the result depends on \<open>data1\<close>, \<open>data2\<close> and \<open>mean_type\<close>
  only.
\<close>

theorem t_test_raw_data_precedence:
  "t_test cdf_t (Some d1) (Some d2) mu1 mu2 sigma1 sigma2 n1 n2 mean_type =
     and_then (if mean_type = ''harmonic'' then harmonic_mean d1 else arithmetic_mean d1) (\<lambda>m1.
     and_then (if mean_type = ''harmonic'' then harmonic_mean d2 else arithmetic_mean d2) (\<lambda>m2.
     and_then (standard_deviation d1) (\<lambda>s1.
     and_then (standard_deviation d2) (\<lambda>s2.
       t_test cdf_t None None (Some m1) (Some m2) (Some s1) (Some s2)
         (Some (int (length d1))) (Some (int (length d2))) mean_type)))) \<and>
   t_test cdf_t (Some d1) (Some d2) mu1 mu2 sigma1 sigma2 n1 n2 mean_type =
     t_test cdf_t (Some d1) (Some d2) mu1' mu2' sigma1' sigma2' n1' n2' mean_type"
  by (simp add: t_test_def)

theorem t_test_raw_data_precedence_witness:
  "t_test (\<lambda>x d. 1 / (1 + x + real_of_int d)) (Some [2, 4]) (Some [1, 3])
     (Some 100) (Some 200) (Some 7) (Some 9) (Some 50) (Some 60) ''arithmetic''
   = Inr (1, 3 / 2) \<and>
   t_test (\<lambda>x d. 1 / (1 + x + real_of_int d)) None None
     (Some 3) (Some 2) (Some 1) (Some 1) (Some 2) (Some 2) ''arithmetic''
   = Inr (1, 3 / 2)"
  using t_test_raw_data_precedence
    [of "\<lambda>x d. 1 / (1 + x + real_of_int d)" "[2, 4]" "[1, 3]"
        "Some 100" "Some 200" "Some 7" "Some 9" "Some 50" "Some 60" "''arithmetic''"]
  by (simp add: t_test_def t_test_body_def arithmetic_mean_def standard_deviation_def
      need_def true_div_def math_sqrt_def and_then_def)



end
